theory Spec2Isabelle
  imports Main
begin

section \<open>JavaScript strings and objects\<close>

text \<open>
  Strings are \<^typ>\<open>string\<close>. An object used as a dictionary
  (\<^verbatim>\<open>{ [key: string]: V }\<close>) is a map from keys to values when it is only read, and an
  association list in insertion order where the code iterates over it. The keys are paths
  and route templates, which begin with a slash, so a lookup never meets a property
  inherited from \<^verbatim>\<open>Object.prototype\<close>.

  JavaScript tests \<^verbatim>\<open>if (x)\<close> on a value that is a string or \<^verbatim>\<open>undefined\<close>/\<^verbatim>\<open>null\<close>:
  the test fails for \<^verbatim>\<open>undefined\<close>, \<^verbatim>\<open>null\<close> and for the empty string. \<open>truthy\<close> keeps
  exactly the values that pass it.
\<close>

type_synonym 'v dict = "string \<rightharpoonup> 'v"

definition truthy :: "string option \<Rightarrow> string option" where
  "truthy v = (case v of None \<Rightarrow> None | Some s \<Rightarrow> (if s = [] then None else Some s))"

text \<open>\<^verbatim>\<open>s.startsWith(p)\<close>, \<^verbatim>\<open>s.endsWith(p)\<close> and \<^verbatim>\<open>s.slice(0, -1)\<close>.\<close>

fun startsWith :: "string \<Rightarrow> string \<Rightarrow> bool" where
  "startsWith s [] = True"
| "startsWith [] (p # ps) = False"
| "startsWith (c # cs) (p # ps) = (c = p \<and> startsWith cs ps)"

definition endsWith :: "string \<Rightarrow> string \<Rightarrow> bool" where
  "endsWith s p = startsWith (rev s) (rev p)"

definition slice_0_minus1 :: "string \<Rightarrow> string" where
  "slice_0_minus1 s = butlast s"

text \<open>\<^verbatim>\<open>s.split(c)\<close> for a one-character separator: the result is never empty.\<close>

fun split :: "char \<Rightarrow> string \<Rightarrow> string list" where
  "split sep [] = [[]]"
| "split sep (c # cs) =
     (if c = sep then [] # split sep cs
      else (case split sep cs of
              [] \<Rightarrow> [[c]]
            | part # parts \<Rightarrow> (c # part) # parts))"

section \<open>Manifests (types.ts, as build/index.ts constructs them)\<close>

text \<open>
  The type declarations of the manifests are not among the sources; the records follow the
  object literal of \<^verbatim>\<open>prepareBuildManifests\<close> and the fields the routing code reads.
  The \<^verbatim>\<open>authentication\<close> field, which no function below reads, is left out.
\<close>

record Dynamic =
  "file" :: string
  regex :: string

record DynamicPageRoute =
  route :: string
  regex :: string

record NonDynamicSSG =
  initialRevalidateSeconds :: "nat option"
  srcRoute :: "string option"
  dataRoute :: string

record DynamicSSG =
  routeRegex :: string
  dataRoute :: string
  fallback :: "string option"
  dataRouteRegex :: string

record ('d, 'n) bucket =
  dynamic :: "'d dict"
  nonDynamic :: "'n dict"

record ('d, 'n) ssr_bucket = "('d, 'n) bucket" +
  catchAll :: "'d dict"

record Pages =
  dynamic :: "DynamicPageRoute list"
  ssr :: "(Dynamic, string, unit) ssr_bucket_scheme"
  html :: "(Dynamic, string) bucket"
  ssg :: "(DynamicSSG, NonDynamicSSG) bucket"

record Manifest =
  trailingSlash :: bool
  domainRedirects :: "string dict"

record PageManifest = Manifest +
  buildId :: string
  pages :: Pages
  publicFiles :: "string dict"

record RedirectData =
  source :: string
  destination :: string
  statusCode :: nat
  regex :: string

record I18nData =
  locales :: "string list"
  defaultLocale :: string

record RoutesManifest =
  basePath :: string
  redirects :: "RedirectData list option"
  i18n :: "I18nData option"

record Request =
  uri :: string

section \<open>Collaborators outside the sources\<close>

text \<open>
  The routing code calls modules of the repository that are not among the sources
  (\<^verbatim>\<open>basepath\<close>, \<^verbatim>\<open>locale\<close>, \<^verbatim>\<open>rewrite\<close>), the library path-to-regexp, the
  built-in \<^verbatim>\<open>URL\<close> parser and regular expressions. They are parameters of the model,
  collected in one record; \<open>'p\<close> is the type of the parameter object that a path match
  captures and a destination template consumes.

  \<^item> \<open>ptr_match source path\<close> is \<^verbatim>\<open>match(source, {decode})(path)\<close>: \<open>Inl\<close> when the
    library throws, \<open>Inr None\<close> for \<^verbatim>\<open>false\<close>, \<open>Inr (Some ps)\<close> for a match with
    parameters \<open>ps\<close>.
  \<^item> \<open>ptr_compile template ps\<close> is \<^verbatim>\<open>compile(template, {encode})(ps)\<close>, \<open>None\<close> when
    either call throws.
  \<^item> \<open>url_parse s\<close> is \<^verbatim>\<open>new URL(s)\<close>, giving origin and pathname, \<open>None\<close> when it throws.
  \<^item> \<open>regExpTest regex s\<close> is \<^verbatim>\<open>new RegExp(regex, "i").test(s)\<close>.
  \<^item> \<open>getRewritePath\<close> returns \<open>None\<close> for \<^verbatim>\<open>null\<close>/\<^verbatim>\<open>undefined\<close>.

  The functions of the absent modules are taken to return normally.
\<close>

datatype fault = LibraryError

record 'p env =
  normalise :: "string \<Rightarrow> RoutesManifest \<Rightarrow> string"
  addDefaultLocaleToPath :: "string \<Rightarrow> RoutesManifest \<Rightarrow> string"
  getRewritePath :: "string \<Rightarrow> RoutesManifest \<Rightarrow> string option"
  isExternalRewrite :: "string \<Rightarrow> bool"
  regExpTest :: "string \<Rightarrow> string \<Rightarrow> bool"
  ptr_match :: "string \<Rightarrow> string \<Rightarrow> fault + 'p option"
  ptr_compile :: "string \<Rightarrow> 'p \<Rightarrow> string option"
  url_parse :: "string \<Rightarrow> (string \<times> string) option"

section \<open>page.ts\<close>

text \<open>
  A routing decision: \<^verbatim>\<open>{isData, isStatic: true, file}\<close>, \<^verbatim>\<open>{isData, isRender: true, page}\<close>
  or \<^verbatim>\<open>{isExternal: true, path, querystring}\<close>. The last component is the
  \<^verbatim>\<open>querystring\<close> property, \<open>None\<close> when it is absent or \<^verbatim>\<open>undefined\<close>.
\<close>

datatype Route =
    StaticRoute bool string "string option"
  | RenderRoute bool string "string option"
  | ExternalRoute string "string option"

text \<open>\<^verbatim>\<open>{...route, querystring}\<close>\<close>

fun withQuerystring :: "Route \<Rightarrow> string option \<Rightarrow> Route" where
  "withQuerystring (StaticRoute isData f _) q = StaticRoute isData f q"
| "withQuerystring (RenderRoute isData p _) q = RenderRoute isData p q"
| "withQuerystring (ExternalRoute p _) q = ExternalRoute p q"

definition pageHtml :: "string \<Rightarrow> string" where
  "pageHtml localeUri =
     (if localeUri = ''/'' then ''pages/index.html''
      else ''pages'' @ localeUri @ ''.html'')"

definition handle404 :: "PageManifest \<Rightarrow> Route" where
  "handle404 manifest =
     (case truthy (nonDynamic (html (pages manifest)) ''/404'') of
        Some _ \<Rightarrow> StaticRoute False ''pages/404.html'' None
      | None \<Rightarrow> RenderRoute False ''pages/_error.js'' None)"

text \<open>
  Modelled from the spec: \<^verbatim>\<open>matchDynamicRoute\<close> of match.ts is not among the sources. The
  spec has it scan the sorted dynamic-route list for the first pattern that matches the
  normalized path; the loop is that of its sibling \<^verbatim>\<open>matchDynamic\<close>, returning the
  route template instead of the file.
\<close>

fun matchDynamicRoute :: "'p env \<Rightarrow> string \<Rightarrow> DynamicPageRoute list \<Rightarrow> string option" where
  "matchDynamicRoute E u [] = None"
| "matchDynamicRoute E u (r # routes) =
     (if regExpTest E (DynamicPageRoute.regex r) u then Some (route r)
      else matchDynamicRoute E u routes)"

text \<open>
  \<^verbatim>\<open>handlePageReq\<close>. The optional parameter \<^verbatim>\<open>isRewrite\<close> is a \<^typ>\<open>bool\<close>, \<open>False\<close>
  when the caller leaves it out. The function calls itself once, with the flag set.
  \<^verbatim>\<open>const [path, querystring] = rewrite.split("?")\<close> takes the first part, which a
  split always has, and the second when there is one. The function has no
  \<^verbatim>\<open>throw\<close> and reads no property of a value that can be \<^verbatim>\<open>undefined\<close>: its result is
  a decision.
\<close>

function handlePageReq ::
  "'p env \<Rightarrow> string \<Rightarrow> PageManifest \<Rightarrow> RoutesManifest \<Rightarrow> bool \<Rightarrow> bool \<Rightarrow> Route" where
  "handlePageReq E u manifest routesManifest isPreview isRewrite =
     (let pgs = pages manifest;
          localeUri = normalise E (addDefaultLocaleToPath E u routesManifest) routesManifest
      in
      (case truthy (nonDynamic (html pgs) localeUri) of
        Some f \<Rightarrow> StaticRoute False f None
      | None \<Rightarrow>
      if nonDynamic (ssg pgs) localeUri \<noteq> None \<and> \<not> isPreview
      then StaticRoute False (pageHtml localeUri) None
      else
      (case truthy (nonDynamic (ssr pgs) localeUri) of
        Some p \<Rightarrow> RenderRoute False p None
      | None \<Rightarrow>
      (case (if isRewrite then None else truthy (getRewritePath E u routesManifest)) of
        Some rewrite \<Rightarrow>
          (let parts = split (CHR ''?'') rewrite;
               path = hd parts;
               querystring = (if 1 < length parts then Some (parts ! 1) else None)
           in
           if isExternalRewrite E path then ExternalRoute path querystring
           else withQuerystring
                  (handlePageReq E path manifest routesManifest isPreview True)
                  querystring)
      | None \<Rightarrow>
      (case truthy (matchDynamicRoute E localeUri (Pages.dynamic pgs)) of
        None \<Rightarrow> handle404 manifest
      | Some dyn \<Rightarrow>
      (case bucket.dynamic (ssg pgs) dyn of
        Some dynamicSSG \<Rightarrow> StaticRoute False (pageHtml localeUri) None
      | None \<Rightarrow>
      (case bucket.dynamic (ssr pgs) dyn of
        Some dynamicSSR \<Rightarrow> RenderRoute False (file dynamicSSR) None
      | None \<Rightarrow>
      (case bucket.dynamic (html pgs) dyn of
        Some dynamicHTML \<Rightarrow> StaticRoute False (file dynamicHTML) None
      | None \<Rightarrow>
      (case catchAll (ssr pgs) dyn of
        Some c \<Rightarrow> RenderRoute False (file c) None
      | None \<Rightarrow> handle404 manifest)))))))))"
  by pat_completeness auto
termination
  by (relation "measure (\<lambda>(E, u, manifest, routesManifest, isPreview, isRewrite).
                  if isRewrite then 0 else 1)")
     (auto split: if_splits)

declare handlePageReq.simps [simp del]

section \<open>match.ts\<close>

definition matchPath :: "'p env \<Rightarrow> string \<Rightarrow> string \<Rightarrow> fault + 'p option" where
  "matchPath E path src = ptr_match E src path"

text \<open>
  \<^verbatim>\<open>toLowerCase\<close> on the ASCII letters, which is all that the test for the prefixes
  \<^verbatim>\<open>https://\<close> and \<^verbatim>\<open>http://\<close> depends on.
\<close>

definition toLowerCase :: "string \<Rightarrow> string" where
  "toLowerCase s =
     map (\<lambda>c. let n = (of_char c :: nat) in
                if 65 \<le> n \<and> n \<le> 90 then char_of (n + 32) else c) s"

text \<open>\<^verbatim>\<open>destination.replace(/\?/g, "\\?")\<close>: a backslash before every question mark.\<close>

definition escapeQuestionMarks :: "string \<Rightarrow> string" where
  "escapeQuestionMarks s =
     concat (map (\<lambda>c. if c = CHR ''?'' then [CHR 0x5C, CHR ''?''] else [c]) s)"

text \<open>
  \<^verbatim>\<open>compileDestination\<close>. The body is one \<^verbatim>\<open>try\<close> block whose handler returns
  \<^verbatim>\<open>null\<close>: every library call that throws gives \<open>None\<close>.
\<close>

definition compileDestination :: "'p env \<Rightarrow> string \<Rightarrow> 'p \<Rightarrow> string option" where
  "compileDestination E dest params =
     (let destinationLowerCase = toLowerCase dest in
      if startsWith destinationLowerCase ''https://'' \<or>
         startsWith destinationLowerCase ''http://''
      then
        (case url_parse E dest of
           None \<Rightarrow> None
         | Some (origin, pathname) \<Rightarrow>
             (case ptr_compile E pathname params of
                None \<Rightarrow> None
              | Some compiledPath \<Rightarrow>
                  (let compiledDestination = origin @ compiledPath in
                   if \<not> endsWith dest ''/'' \<and> endsWith compiledDestination ''/''
                   then Some (slice_0_minus1 compiledDestination)
                   else Some compiledDestination)))
      else
        (let escapedDestination = escapeQuestionMarks dest in
         ptr_compile E escapedDestination params))"

section \<open>redirect.ts\<close>

record RedirectPath =
  path :: string
  statusCode :: nat

text \<open>
  The loop of \<^verbatim>\<open>getRedirectPath\<close> over the redirect rules. A throw of the matcher is
  not caught and leaves the function; a destination that compiles to \<^verbatim>\<open>null\<close> or to
  the empty string returns \<^verbatim>\<open>null\<close> at once.
\<close>

fun getRedirectPath_loop ::
  "'p env \<Rightarrow> string \<Rightarrow> RedirectData list \<Rightarrow> fault + RedirectPath option" where
  "getRedirectPath_loop E p [] = Inr None"
| "getRedirectPath_loop E p (redirect # rest) =
     (case matchPath E p (source redirect) of
        Inl e \<Rightarrow> Inl e
      | Inr None \<Rightarrow> getRedirectPath_loop E p rest
      | Inr (Some params) \<Rightarrow>
          (case truthy (compileDestination E (destination redirect) params) of
             None \<Rightarrow> Inr None
           | Some compiledDestination \<Rightarrow>
               Inr (Some \<lparr>path = compiledDestination,
                          statusCode = RedirectData.statusCode redirect\<rparr>)))"

definition getRedirectPath ::
  "'p env \<Rightarrow> Request \<Rightarrow> RoutesManifest \<Rightarrow> fault + RedirectPath option" where
  "getRedirectPath E request routesManifest =
     (let p = addDefaultLocaleToPath E (uri request) routesManifest;
          rs = (case redirects routesManifest of None \<Rightarrow> [] | Some rs \<Rightarrow> rs)
      in getRedirectPath_loop E p rs)"

text \<open>The test \<^verbatim>\<open>/^\/[^/]/.test(uri)\<close>: a slash followed by a character that is not one.\<close>

fun slashThenOther :: "string \<Rightarrow> bool" where
  "slashThenOther (c1 # c2 # _) = (c1 = CHR ''/'' \<and> c2 \<noteq> CHR ''/'')"
| "slashThenOther _ = False"

text \<open>\<^verbatim>\<open>getTrailingSlashPath\<close>; \<open>None\<close> is \<^verbatim>\<open>undefined\<close>.\<close>

definition getTrailingSlashPath ::
  "Request \<Rightarrow> 'm Manifest_scheme \<Rightarrow> bool \<Rightarrow> string option" where
  "getTrailingSlashPath request manifest isFile =
     (let u = uri request in
      if isFile then
        (if endsWith u ''/'' then Some (slice_0_minus1 u) else None)
      else if slashThenOther (uri request) then
        (let ts = trailingSlash manifest in
         if \<not> ts \<and> endsWith u ''/'' then Some (slice_0_minus1 u)
         else if ts \<and> \<not> endsWith u ''/'' then Some (u @ ''/'')
         else None)
      else None)"

section \<open>build/index.ts: locale duplicates of the static HTML pages\<close>

text \<open>
  \<^verbatim>\<open>prepareBuildManifests\<close> iterates over \<^verbatim>\<open>htmlPages.nonDynamic\<close> with \<^verbatim>\<open>for ... in\<close>,
  so here the object is an association list in insertion order (the keys are paths, they
  start with a slash, and JavaScript enumerates such keys in the order of their insertion).
  \<open>assign\<close> is \<^verbatim>\<open>obj[k] = v\<close>: an existing key keeps its place, a new one goes last.
  \<open>spread a b\<close> is \<^verbatim>\<open>{...a, ...b}\<close>.
\<close>

type_synonym 'v obj = "(string \<times> 'v) list"

fun assign :: "string \<Rightarrow> 'v \<Rightarrow> 'v obj \<Rightarrow> 'v obj" where
  "assign k v [] = [(k, v)]"
| "assign k v ((k', v') # rest) =
     (if k' = k then (k, v) # rest else (k', v') # assign k v rest)"

definition spread :: "'v obj \<Rightarrow> 'v obj \<Rightarrow> 'v obj" where
  "spread a b = foldl (\<lambda>acc (k, v). assign k v acc) a b"

text \<open>
  \<^verbatim>\<open>s.replace(pattern, replacement)\<close> with a string pattern. Only the first occurrence
  of the pattern is replaced, and a string without one is returned as it is. In the
  replacement string \<^verbatim>\<open>$$\<close> stands for a dollar sign, \<^verbatim>\<open>$&\<close> for the matched text,
  \<^verbatim>\<open>$`\<close> for the text before the match and \<^verbatim>\<open>$'\<close> for the text after it; a string
  pattern captures no groups, so every other dollar sign stands for itself.
  \<open>substitution matched before after replacement\<close> expands the replacement string.
\<close>

fun substitution :: "string \<Rightarrow> string \<Rightarrow> string \<Rightarrow> string \<Rightarrow> string" where
  "substitution m b a (c # d # rest) =
     (if c = CHR ''$'' \<and> d = CHR ''$'' then CHR ''$'' # substitution m b a rest
      else if c = CHR ''$'' \<and> d = CHR ''&'' then m @ substitution m b a rest
      else if c = CHR ''$'' \<and> d = CHR 0x60 then b @ substitution m b a rest
      else if c = CHR ''$'' \<and> d = CHR 0x27 then a @ substitution m b a rest
      else c # substitution m b a (d # rest))"
| "substitution m b a rest = rest"

text \<open>\<open>replaceFrom seen s\<close> searches \<open>s\<close>, the text \<open>seen\<close> having been passed over.\<close>

fun replaceFrom :: "string \<Rightarrow> string \<Rightarrow> string \<Rightarrow> string \<Rightarrow> string" where
  "replaceFrom seen [] pat rep =
     (if pat = [] then seen @ substitution [] seen [] rep else seen)"
| "replaceFrom seen (c # cs) pat rep =
     (if startsWith (c # cs) pat
      then seen @ substitution pat seen (drop (length pat) (c # cs)) rep
             @ drop (length pat) (c # cs)
      else replaceFrom (seen @ [c]) cs pat rep)"

definition replace :: "string \<Rightarrow> string \<Rightarrow> string \<Rightarrow> string" where
  "replace s pat rep = replaceFrom [] s pat rep"

text \<open>
  The inner loop of lines 188 to 192: is the key prefixed with one of the locales?
\<close>

definition localePrefixed :: "string list \<Rightarrow> string \<Rightarrow> bool" where
  "localePrefixed ls key =
     list_ex (\<lambda>locale. startsWith key (''/'' @ locale @ ''/'') \<or> key = ''/'' @ locale) ls"

text \<open>
  The key of a locale duplicate, \<^verbatim>\<open>key === "/" ? `/${locale}` : `/${locale}${key}`\<close>
  (line 194, and again at the head of each of the loops that follow it).
\<close>

definition newKey :: "string \<Rightarrow> string \<Rightarrow> string" where
  "newKey locale key = (if key = ''/'' then ''/'' @ locale else ''/'' @ locale @ key)"

text \<open>
  The labelled loop \<^verbatim>\<open>htmlPagesNonDynamicLoop\<close> (lines 186 to 199) for one locale, over the
  entries of \<^verbatim>\<open>htmlPages.nonDynamic\<close> that remain; the accumulator is
  \<^verbatim>\<open>localeHtmlPages.nonDynamic\<close>. On a prefixed key the source executes
  \<^verbatim>\<open>break htmlPagesNonDynamicLoop\<close>, which leaves the loop over the keys.
\<close>

fun htmlPagesNonDynamicLoop ::
  "string list \<Rightarrow> string \<Rightarrow> string obj \<Rightarrow> string obj \<Rightarrow> string obj" where
  "htmlPagesNonDynamicLoop ls locale [] acc = acc"
| "htmlPagesNonDynamicLoop ls locale ((key, pageFile) # rest) acc =
     (if localePrefixed ls key then acc
      else
        htmlPagesNonDynamicLoop ls locale rest
          (assign (newKey locale key)
             (replace pageFile ''pages/'' (''pages/'' @ locale @ ''/'')) acc))"

text \<open>
  The loop over the locales (line 185), restricted to what it does to
  \<^verbatim>\<open>localeHtmlPages.nonDynamic\<close>, and the final \<^verbatim>\<open>pages.html.nonDynamic\<close> of lines 321 to
  325. Without \<^verbatim>\<open>i18n\<close> in the routes manifest the pages are left as they are.
\<close>

definition localeHtmlPages_nonDynamic :: "string list \<Rightarrow> string obj \<Rightarrow> string obj" where
  "localeHtmlPages_nonDynamic ls htmlNonDynamic =
     foldl (\<lambda>acc locale. htmlPagesNonDynamicLoop ls locale htmlNonDynamic acc) [] ls"

definition html_nonDynamic_i18n :: "RoutesManifest \<Rightarrow> string obj \<Rightarrow> string obj" where
  "html_nonDynamic_i18n routesManifest htmlNonDynamic =
     (case i18n routesManifest of
        None \<Rightarrow> htmlNonDynamic
      | Some cfg \<Rightarrow>
          spread htmlNonDynamic (localeHtmlPages_nonDynamic (locales cfg) htmlNonDynamic))"

section \<open>Concrete inputs\<close>

text \<open>
  The closed examples below need the collaborators at concrete arguments. \<open>sampleEnv\<close>
  gives them there:
  \<^item> a routes manifest with an empty base path and without i18n, where
    \<^verbatim>\<open>addDefaultLocaleToPath\<close> and \<^verbatim>\<open>normalise\<close> return a path without trailing slash
    unchanged;
  \<^item> one internal rewrite, from \<^verbatim>\<open>/old\<close> to \<^verbatim>\<open>/blog/1?ref=old\<close>;
  \<^item> the patterns \<^verbatim>\<open>^/blog/([^/]+?)$\<close> and \<^verbatim>\<open>^/blog/(.+?)$\<close> on paths under \<^verbatim>\<open>/blog/\<close>;
  \<^item> path-to-regexp matching the source \<^verbatim>\<open>/old-blog/:slug\<close> of redirector.test.ts, and a
    source without pattern syntax against the identical path (a match without
    parameters);
  \<^item> path-to-regexp compiling the destinations \<^verbatim>\<open>/news/:slug\<close> and \<^verbatim>\<open>/a/:b(.*)\<close> (each
    parameter is written behind its prefix \<^verbatim>\<open>/\<close>; the pattern \<^verbatim>\<open>.*\<close> admits the empty
    string), a destination of plain path segments such as \<^verbatim>\<open>/b\<close> or \<^verbatim>\<open>/docs/\<close> (it
    compiles to itself), and \<^verbatim>\<open>ftp://example.com\<close>, which the library rejects because no
    parameter name follows the colon, as the test of \<^verbatim>\<open>/invalid-destination\<close> in
    redirector.test.ts expects;
  \<^item> \<^verbatim>\<open>new URL("https://example.com")\<close>, whose pathname is \<^verbatim>\<open>/\<close>, and
    \<^verbatim>\<open>new URL("https://example.com/docs/")\<close>, whose pathname is \<^verbatim>\<open>/docs/\<close>.
  Captured parameters are a list of names with their values. The record stands for the
  collaborators at the arguments named here and is not used at any other.
\<close>

definition sampleEnv :: "(string \<times> string) list env" where
  "sampleEnv =
     \<lparr> normalise = (\<lambda>u rm. u),
       addDefaultLocaleToPath = (\<lambda>u rm. u),
       getRewritePath = (\<lambda>u rm. if u = ''/old'' then Some ''/blog/1?ref=old'' else None),
       isExternalRewrite = (\<lambda>p. False),
       regExpTest = (\<lambda>re s.
          (re = ''^/blog/([^/]+?)$'' \<and> startsWith s ''/blog/'' \<and> drop 6 s \<noteq> []
             \<and> CHR ''/'' \<notin> set (drop 6 s))
          \<or> (re = ''^/blog/(.+?)$'' \<and> startsWith s ''/blog/'' \<and> drop 6 s \<noteq> [])),
       ptr_match = (\<lambda>src p.
          if src = ''/old-blog/:slug'' then
            (if startsWith p ''/old-blog/'' \<and> drop 10 p \<noteq> []
                \<and> CHR ''/'' \<notin> set (drop 10 p)
             then Inr (Some [(''slug'', drop 10 p)]) else Inr None)
          else if src = p then Inr (Some []) else Inr None),
       ptr_compile = (\<lambda>t ps.
          if t = ''/news/:slug'' then map_option (\<lambda>v. ''/news/'' @ v) (map_of ps ''slug'')
          else if t = ''/a/:b(.*)'' then map_option (\<lambda>v. ''/a/'' @ v) (map_of ps ''b'')
          else if CHR '':'' \<in> set t then None
          else Some t),
       url_parse = (\<lambda>s.
          if s = ''https://example.com'' then Some (''https://example.com'', ''/'')
          else if s = ''https://example.com/docs/'' then Some (''https://example.com'', ''/docs/'')
          else None) \<rparr>"

definition plainRoutes :: RoutesManifest where
  "plainRoutes = \<lparr> basePath = [], redirects = None, i18n = None \<rparr>"

definition emptyPages :: Pages where
  "emptyPages =
     \<lparr> Pages.dynamic = [],
       ssr = \<lparr> bucket.dynamic = Map.empty, nonDynamic = Map.empty, catchAll = Map.empty \<rparr>,
       html = \<lparr> bucket.dynamic = Map.empty, nonDynamic = Map.empty \<rparr>,
       ssg = \<lparr> bucket.dynamic = Map.empty, nonDynamic = Map.empty \<rparr> \<rparr>"

definition manifestOf :: "Pages \<Rightarrow> PageManifest" where
  "manifestOf pgs =
     \<lparr> trailingSlash = False, domainRedirects = Map.empty,
       buildId = ''build'', pages = pgs, publicFiles = Map.empty \<rparr>"

text \<open>
  A blog with a page \<^verbatim>\<open>/blog/[id]\<close> that two buckets own (server-rendered and static
  HTML), a catch-all page, and three pages without parameters, one in each bucket.
\<close>

definition blogPages :: Pages where
  "blogPages =
     \<lparr> Pages.dynamic =
         [\<lparr>route = ''/blog/[id]'', regex = ''^/blog/([^/]+?)$''\<rparr>,
          \<lparr>route = ''/blog/[...slug]'', regex = ''^/blog/(.+?)$''\<rparr>],
       ssr = \<lparr> bucket.dynamic =
                 [''/blog/[id]'' \<mapsto>
                    \<lparr>file = ''pages/blog/[id].js'', regex = ''^/blog/([^/]+?)$''\<rparr>],
               nonDynamic = [''/customers'' \<mapsto> ''pages/customers.js''],
               catchAll =
                 [''/blog/[...slug]'' \<mapsto>
                    \<lparr>file = ''pages/blog/[...slug].js'', regex = ''^/blog/(.+?)$''\<rparr>] \<rparr>,
       html = \<lparr> bucket.dynamic =
                  [''/blog/[id]'' \<mapsto>
                     \<lparr>file = ''pages/blog/[id].html'', regex = ''^/blog/([^/]+?)$''\<rparr>],
                nonDynamic = [''/terms'' \<mapsto> ''pages/terms.html'',
                              ''/404'' \<mapsto> ''pages/en/404.html''] \<rparr>,
       ssg = \<lparr> bucket.dynamic = Map.empty,
               nonDynamic =
                 [''/'' \<mapsto> \<lparr>initialRevalidateSeconds = None, srcRoute = None,
                             dataRoute = ''/_next/data/build/index.json''\<rparr>] \<rparr> \<rparr>"

definition ruleInvalid :: RedirectData where
  "ruleInvalid = \<lparr>source = ''/a'', destination = ''ftp://example.com'',
                   statusCode = 308, regex = ''^/a$''\<rparr>"

definition ruleAB :: RedirectData where
  "ruleAB = \<lparr>source = ''/a'', destination = ''/b'', statusCode = 308, regex = ''^/a$''\<rparr>"

definition ruleAC :: RedirectData where
  "ruleAC = \<lparr>source = ''/a'', destination = ''/c'', statusCode = 302, regex = ''^/a$''\<rparr>"

definition ruleC :: RedirectData where
  "ruleC = \<lparr>source = ''/c'', destination = ''/d'', statusCode = 302, regex = ''^/c$''\<rparr>"

definition i18nRoutes :: RoutesManifest where
  "i18nRoutes = \<lparr> basePath = [], redirects = None,
                   i18n = Some \<lparr>locales = [''en'', ''fr''], defaultLocale = ''en''\<rparr> \<rparr>"

section \<open>Helper lemmas\<close>

lemma split_not_Nil: "split sep s \<noteq> []"
  by (induction s) (auto split: list.splits)

lemma matchDynamicRoute_first:
  "rs = pre @ r # post \<Longrightarrow> regExpTest E (DynamicPageRoute.regex r) u \<Longrightarrow>
   \<forall>r' \<in> set pre. \<not> regExpTest E (DynamicPageRoute.regex r') u \<Longrightarrow>
   matchDynamicRoute E u rs = Some (route r)"
  by (induction pre arbitrary: rs) auto

lemma matchDynamicRoute_env:
  "regExpTest E' = regExpTest E \<Longrightarrow> matchDynamicRoute E' u rs = matchDynamicRoute E u rs"
  by (induction rs) auto

text \<open>When steps 2 to 5 do not fire, the request reaches the scan of the dynamic routes.\<close>

lemma handlePageReq_reaches_dynamic:
  assumes "P = normalise E (addDefaultLocaleToPath E u rm) rm"
    and "pgs = pages manifest"
    and "truthy (nonDynamic (html pgs) P) = None"
    and "nonDynamic (ssg pgs) P = None \<or> isPreview"
    and "truthy (nonDynamic (ssr pgs) P) = None"
    and "isRewrite \<or> truthy (getRewritePath E u rm) = None"
  shows "handlePageReq E u manifest rm isPreview isRewrite =
     (case truthy (matchDynamicRoute E P (Pages.dynamic pgs)) of
        None \<Rightarrow> handle404 manifest
      | Some dyn \<Rightarrow>
      (case bucket.dynamic (ssg pgs) dyn of
        Some dynamicSSG \<Rightarrow> StaticRoute False (pageHtml P) None
      | None \<Rightarrow>
      (case bucket.dynamic (ssr pgs) dyn of
        Some dynamicSSR \<Rightarrow> RenderRoute False (file dynamicSSR) None
      | None \<Rightarrow>
      (case bucket.dynamic (html pgs) dyn of
        Some dynamicHTML \<Rightarrow> StaticRoute False (file dynamicHTML) None
      | None \<Rightarrow>
      (case catchAll (ssr pgs) dyn of
        Some c \<Rightarrow> RenderRoute False (file c) None
      | None \<Rightarrow> handle404 manifest)))))"
proof -
  have rw: "(if isRewrite then None else truthy (getRewritePath E u rm)) = None"
    using assms(6) by auto
  have sg: "\<not> (nonDynamic (ssg (pages manifest)) P \<noteq> None \<and> \<not> isPreview)"
    using assms(2,4) by auto
  show ?thesis
    apply (subst handlePageReq.simps)
    using assms(3,5) rw sg
    apply (simp only: Let_def assms(1)[symmetric] assms(2)[symmetric])
    apply (simp only: assms(2) option.case if_False)
    done
qed

section \<open>The NotFound decision\<close>

text \<open>
  Claim C10. When the static HTML pages hold an entry for \<^verbatim>\<open>/404\<close>, \<^verbatim>\<open>handle404\<close> returns
  the static file \<^verbatim>\<open>pages/404.html\<close>, whatever file name the manifest stores under that key
  (in \<open>blogPages\<close> it is \<^verbatim>\<open>pages/en/404.html\<close>). An entry is a file name, which is not empty:
  the source tests the stored value for truth, and the empty string fails that test.
\<close>

theorem handle404_fixed_file:
  "nonDynamic (html (pages manifest)) ''/404'' = Some f \<Longrightarrow> f \<noteq> [] \<Longrightarrow>
   handle404 manifest = StaticRoute False ''pages/404.html'' None"
  by (simp add: handle404_def truthy_def)

theorem handle404_fixed_file_witness:
  "nonDynamic (html (pages (manifestOf blogPages))) ''/404'' = Some ''pages/en/404.html''
   \<and> handle404 (manifestOf blogPages) = StaticRoute False ''pages/404.html'' None"
proof -
  have h: "nonDynamic (html (pages (manifestOf blogPages))) ''/404'' = Some ''pages/en/404.html''"
    by (simp add: manifestOf_def blogPages_def)
  have n: "''pages/en/404.html'' \<noteq> []" by simp
  show ?thesis using h handle404_fixed_file [OF h n] by simp
qed

text \<open>
  Claim C7. When no step of the resolution matches (no entry without parameters for the
  normalized path, no rewrite found or the call is itself the rewritten one, and either no
  dynamic route matches or the matching template is in none of the four buckets),
  \<^verbatim>\<open>handlePageReq\<close> returns the NotFound decision: the static file \<^verbatim>\<open>pages/404.html\<close> when
  the static HTML pages hold an entry for \<^verbatim>\<open>/404\<close>, the render of \<^verbatim>\<open>pages/_error.js\<close>
  otherwise. \<^verbatim>\<open>handlePageReq\<close> has no raising branch: it is a total function to decisions.
\<close>

theorem handlePageReq_notFound:
  assumes "P = normalise E (addDefaultLocaleToPath E u rm) rm"
    and "pgs = pages manifest"
    and "truthy (nonDynamic (html pgs) P) = None"
    and "nonDynamic (ssg pgs) P = None \<or> isPreview"
    and "truthy (nonDynamic (ssr pgs) P) = None"
    and "isRewrite \<or> truthy (getRewritePath E u rm) = None"
    and "truthy (matchDynamicRoute E P (Pages.dynamic pgs)) = None \<or>
         (\<exists>T. matchDynamicRoute E P (Pages.dynamic pgs) = Some T
            \<and> bucket.dynamic (ssg pgs) T = None \<and> bucket.dynamic (ssr pgs) T = None
            \<and> bucket.dynamic (html pgs) T = None \<and> catchAll (ssr pgs) T = None)"
  shows "handlePageReq E u manifest rm isPreview isRewrite =
           (if \<exists>f. nonDynamic (html pgs) ''/404'' = Some f \<and> f \<noteq> []
            then StaticRoute False ''pages/404.html'' None
            else RenderRoute False ''pages/_error.js'' None)"
proof -
  have nf: "handle404 manifest =
           (if \<exists>f. nonDynamic (html pgs) ''/404'' = Some f \<and> f \<noteq> []
            then StaticRoute False ''pages/404.html'' None
            else RenderRoute False ''pages/_error.js'' None)"
    by (auto simp: handle404_def assms(2) truthy_def split: option.splits)
  have "handlePageReq E u manifest rm isPreview isRewrite = handle404 manifest"
    using assms(7)
  proof
    assume "truthy (matchDynamicRoute E P (Pages.dynamic pgs)) = None"
    then show ?thesis
      by (simp add: handlePageReq_reaches_dynamic [OF assms(1-6)])
  next
    assume "\<exists>T. matchDynamicRoute E P (Pages.dynamic pgs) = Some T
            \<and> bucket.dynamic (ssg pgs) T = None \<and> bucket.dynamic (ssr pgs) T = None
            \<and> bucket.dynamic (html pgs) T = None \<and> catchAll (ssr pgs) T = None"
    then obtain T where T: "matchDynamicRoute E P (Pages.dynamic pgs) = Some T"
      "bucket.dynamic (ssg pgs) T = None" "bucket.dynamic (ssr pgs) T = None"
      "bucket.dynamic (html pgs) T = None" "catchAll (ssr pgs) T = None"
      by blast
    show ?thesis
      by (cases "T = []") (simp_all add: handlePageReq_reaches_dynamic [OF assms(1-6)] T truthy_def)
  qed
  with nf show ?thesis by simp
qed

theorem handlePageReq_notFound_witness:
  "handlePageReq sampleEnv ''/missing'' (manifestOf blogPages) plainRoutes False False
     = StaticRoute False ''pages/404.html'' None
   \<and> handlePageReq sampleEnv ''/missing'' (manifestOf emptyPages) plainRoutes False False
     = RenderRoute False ''pages/_error.js'' None"
proof -
  have a: "handlePageReq sampleEnv ''/missing'' (manifestOf blogPages) plainRoutes False False
     = StaticRoute False ''pages/404.html'' None"
    using handlePageReq_notFound [of "''/missing''" sampleEnv "''/missing''" plainRoutes
        blogPages "manifestOf blogPages" False False]
    by (simp add: sampleEnv_def manifestOf_def blogPages_def truthy_def)
  have b: "handlePageReq sampleEnv ''/missing'' (manifestOf emptyPages) plainRoutes False False
     = RenderRoute False ''pages/_error.js'' None"
    using handlePageReq_notFound [of "''/missing''" sampleEnv "''/missing''" plainRoutes
        emptyPages "manifestOf emptyPages" False False]
    by (simp add: sampleEnv_def manifestOf_def emptyPages_def truthy_def)
  from a b show ?thesis by simp
qed

section \<open>The resolution order of handlePageReq\<close>

text \<open>
  Claim C1. A request that reaches the scan of the dynamic routes (steps 2 to 5 did not
  fire) and whose normalized path \<open>P\<close> matches the template \<open>T\<close> first in the sorted list is
  resolved against the buckets in the order SSG-dynamic (static file named after the
  path), SSR-dynamic (render), HTML-dynamic (static file), SSR-catchAll (render): the
  decision is that of the first of the four buckets that has \<open>T\<close> as a key. In
  \<open>blogPages\<close> the template \<^verbatim>\<open>/blog/[id]\<close> is both server-rendered and static HTML, and
  the render wins.
\<close>

theorem handlePageReq_dynamic_priority:
  assumes "P = normalise E (addDefaultLocaleToPath E u rm) rm"
    and "pgs = pages manifest"
    and "truthy (nonDynamic (html pgs) P) = None"
    and "nonDynamic (ssg pgs) P = None \<or> isPreview"
    and "truthy (nonDynamic (ssr pgs) P) = None"
    and "isRewrite \<or> truthy (getRewritePath E u rm) = None"
    and "Pages.dynamic pgs = pre @ r # post"
    and "regExpTest E (DynamicPageRoute.regex r) P"
    and "\<forall>r' \<in> set pre. \<not> regExpTest E (DynamicPageRoute.regex r') P"
    and "route r = T" and "T \<noteq> []"
  shows "handlePageReq E u manifest rm isPreview isRewrite =
     (case bucket.dynamic (ssg pgs) T of
        Some dynamicSSG \<Rightarrow> StaticRoute False (pageHtml P) None
      | None \<Rightarrow>
      (case bucket.dynamic (ssr pgs) T of
        Some dynamicSSR \<Rightarrow> RenderRoute False (file dynamicSSR) None
      | None \<Rightarrow>
      (case bucket.dynamic (html pgs) T of
        Some dynamicHTML \<Rightarrow> StaticRoute False (file dynamicHTML) None
      | None \<Rightarrow>
      (case catchAll (ssr pgs) T of
        Some c \<Rightarrow> RenderRoute False (file c) None
      | None \<Rightarrow> handle404 manifest))))"
proof -
  have "matchDynamicRoute E P (Pages.dynamic pgs) = Some T"
    using matchDynamicRoute_first [OF assms(7,8,9)] assms(10) by simp
  then have "truthy (matchDynamicRoute E P (Pages.dynamic pgs)) = Some T"
    using assms(11) by (simp add: truthy_def)
  then show ?thesis
    by (simp add: handlePageReq_reaches_dynamic [OF assms(1-6)])
qed

theorem handlePageReq_dynamic_priority_witness:
  "handlePageReq sampleEnv ''/blog/1'' (manifestOf blogPages) plainRoutes False False
     = RenderRoute False ''pages/blog/[id].js'' None
   \<and> handlePageReq sampleEnv ''/blog/2020/1'' (manifestOf blogPages) plainRoutes False False
     = RenderRoute False ''pages/blog/[...slug].js'' None"
proof -
  have a: "handlePageReq sampleEnv ''/blog/1'' (manifestOf blogPages) plainRoutes False False
     = RenderRoute False ''pages/blog/[id].js'' None"
    using handlePageReq_dynamic_priority [of "''/blog/1''" sampleEnv "''/blog/1''" plainRoutes
        blogPages "manifestOf blogPages" False False "[]"
        "\<lparr>route = ''/blog/[id]'', regex = ''^/blog/([^/]+?)$''\<rparr>"
        "[\<lparr>route = ''/blog/[...slug]'', regex = ''^/blog/(.+?)$''\<rparr>]" "''/blog/[id]''"]
    by (simp add: sampleEnv_def manifestOf_def blogPages_def truthy_def)
  have b: "handlePageReq sampleEnv ''/blog/2020/1'' (manifestOf blogPages) plainRoutes False False
     = RenderRoute False ''pages/blog/[...slug].js'' None"
    using handlePageReq_dynamic_priority [of "''/blog/2020/1''" sampleEnv "''/blog/2020/1''" plainRoutes
        blogPages "manifestOf blogPages" False False
        "[\<lparr>route = ''/blog/[id]'', regex = ''^/blog/([^/]+?)$''\<rparr>]"
        "\<lparr>route = ''/blog/[...slug]'', regex = ''^/blog/(.+?)$''\<rparr>"
        "[]" "''/blog/[...slug]''"]
    by (simp add: sampleEnv_def manifestOf_def blogPages_def truthy_def)
  from a b show ?thesis by simp
qed

text \<open>
  In preview mode the result does not depend on \<^verbatim>\<open>pages.ssg.nonDynamic\<close>: the manifest
  may hold any other object \<open>X\<close> in its place.
\<close>

lemma handlePageReq_preview_flagged:
  assumes "isPreview"
    and "pages manifest' = (pages manifest)\<lparr>ssg := (ssg (pages manifest))\<lparr>nonDynamic := X\<rparr>\<rparr>"
    and "handle404 manifest' = handle404 manifest"
  shows "handlePageReq E u manifest' rm isPreview True = handlePageReq E u manifest rm isPreview True"
proof -
  have f: "html (pages manifest') = html (pages manifest)"
    "ssr (pages manifest') = ssr (pages manifest)"
    "Pages.dynamic (pages manifest') = Pages.dynamic (pages manifest)"
    "bucket.dynamic (ssg (pages manifest')) = bucket.dynamic (ssg (pages manifest))"
    by (simp_all add: assms(2))
  have p: "(A \<and> \<not> isPreview) = False" for A using assms(1) by simp
  show ?thesis
    apply (subst handlePageReq.simps)
    apply (subst (2) handlePageReq.simps)
    apply (simp only: Let_def f p assms(3) if_True if_False option.case)
    done
qed

lemma handlePageReq_preview_ignores_ssg:
  assumes "isPreview"
    and "pages manifest' = (pages manifest)\<lparr>ssg := (ssg (pages manifest))\<lparr>nonDynamic := X\<rparr>\<rparr>"
    and "handle404 manifest' = handle404 manifest"
  shows "handlePageReq E u manifest' rm isPreview isRewrite = handlePageReq E u manifest rm isPreview isRewrite"
proof (cases isRewrite)
  case True
  then show ?thesis using handlePageReq_preview_flagged [OF assms] by simp
next
  case False
  have f: "html (pages manifest') = html (pages manifest)"
    "ssr (pages manifest') = ssr (pages manifest)"
    "Pages.dynamic (pages manifest') = Pages.dynamic (pages manifest)"
    "bucket.dynamic (ssg (pages manifest')) = bucket.dynamic (ssg (pages manifest))"
    by (simp_all add: assms(2))
  have p: "(A \<and> \<not> isPreview) = False" for A using assms(1) by simp
  have r: "handlePageReq E v manifest' rm isPreview True = handlePageReq E v manifest rm isPreview True" for v
    by (rule handlePageReq_preview_flagged [OF assms])
  show ?thesis
    apply (subst handlePageReq.simps)
    apply (subst (2) handlePageReq.simps)
    apply (simp only: Let_def f p r assms(3) if_True if_False option.case)
    done
qed


lemma handlePageReq_html_nonDynamic:
  assumes "P = normalise E (addDefaultLocaleToPath E u rm) rm"
    and "nonDynamic (html (pages manifest)) P = Some f" and "f \<noteq> []"
  shows "handlePageReq E u manifest rm isPreview isRewrite = StaticRoute False f None"
proof -
  have "truthy (nonDynamic (html (pages manifest)) P) = Some f"
    using assms(2,3) by (simp add: truthy_def)
  then show ?thesis
    by (subst handlePageReq.simps) (simp add: Let_def assms(1)[symmetric])
qed

lemma handlePageReq_ssg_nonDynamic:
  assumes "P = normalise E (addDefaultLocaleToPath E u rm) rm"
    and "truthy (nonDynamic (html (pages manifest)) P) = None"
    and "nonDynamic (ssg (pages manifest)) P = Some s" and "\<not> isPreview"
  shows "handlePageReq E u manifest rm isPreview isRewrite = StaticRoute False (pageHtml P) None"
  using assms(2-4)
  by (subst handlePageReq.simps) (simp add: Let_def assms(1)[symmetric])

lemma handlePageReq_ssr_nonDynamic:
  assumes "P = normalise E (addDefaultLocaleToPath E u rm) rm"
    and "truthy (nonDynamic (html (pages manifest)) P) = None"
    and "nonDynamic (ssg (pages manifest)) P = None \<or> isPreview"
    and "nonDynamic (ssr (pages manifest)) P = Some p" and "p \<noteq> []"
  shows "handlePageReq E u manifest rm isPreview isRewrite = RenderRoute False p None"
proof -
  have "truthy (nonDynamic (ssr (pages manifest)) P) = Some p"
    using assms(4,5) by (simp add: truthy_def)
  moreover have "\<not> (nonDynamic (ssg (pages manifest)) P \<noteq> None \<and> \<not> isPreview)"
    using assms(3) by auto
  ultimately show ?thesis
    using assms(2)
    by (subst handlePageReq.simps) (simp add: Let_def assms(1)[symmetric])
qed

text \<open>
  Claim C2. When the normalized path \<open>P\<close> is a key of exactly one of the three buckets
  without parameters, \<^verbatim>\<open>handlePageReq\<close> returns that entry's decision, whatever the
  rewrites, the dynamic-route list and the flag \<^verbatim>\<open>isRewrite\<close> are: the stored file for a
  static HTML page, the HTML artifact named after the path (\<^verbatim>\<open>pages/index.html\<close> for the
  root) for an SSG page when \<^verbatim>\<open>isPreview\<close> is false, the stored page for a
  server-rendered one. In preview mode the SSG bucket is not consulted: any other object
  in its place gives the same decision. Stored file names are not empty.
\<close>

theorem handlePageReq_nonDynamic_first:
  assumes "P = normalise E (addDefaultLocaleToPath E u rm) rm"
    and "pgs = pages manifest"
  shows
   "(nonDynamic (html pgs) P = Some f \<and> f \<noteq> [] \<and>
       nonDynamic (ssg pgs) P = None \<and> nonDynamic (ssr pgs) P = None
     \<longrightarrow> handlePageReq E u manifest rm isPreview isRewrite = StaticRoute False f None)
  \<and> (nonDynamic (html pgs) P = None \<and> nonDynamic (ssg pgs) P = Some s \<and>
       nonDynamic (ssr pgs) P = None \<and> \<not> isPreview
     \<longrightarrow> handlePageReq E u manifest rm isPreview isRewrite
           = StaticRoute False (if P = ''/'' then ''pages/index.html''
                                else ''pages'' @ P @ ''.html'') None)
  \<and> (nonDynamic (html pgs) P = None \<and> nonDynamic (ssg pgs) P = None \<and>
       nonDynamic (ssr pgs) P = Some p \<and> p \<noteq> []
     \<longrightarrow> handlePageReq E u manifest rm isPreview isRewrite = RenderRoute False p None)
  \<and> (isPreview
     \<longrightarrow> handlePageReq E u
            (manifest\<lparr>pages := pgs\<lparr>ssg := (ssg pgs)\<lparr>nonDynamic := X\<rparr>\<rparr>\<rparr>) rm isPreview isRewrite
         = handlePageReq E u manifest rm isPreview isRewrite)"
proof (intro conjI impI)
  assume "nonDynamic (html pgs) P = Some f \<and> f \<noteq> [] \<and>
       nonDynamic (ssg pgs) P = None \<and> nonDynamic (ssr pgs) P = None"
  then show "handlePageReq E u manifest rm isPreview isRewrite = StaticRoute False f None"
    using handlePageReq_html_nonDynamic [OF assms(1)] assms(2) by simp
next
  assume "nonDynamic (html pgs) P = None \<and> nonDynamic (ssg pgs) P = Some s \<and>
       nonDynamic (ssr pgs) P = None \<and> \<not> isPreview"
  then show "handlePageReq E u manifest rm isPreview isRewrite
           = StaticRoute False (if P = ''/'' then ''pages/index.html''
                                else ''pages'' @ P @ ''.html'') None"
    using handlePageReq_ssg_nonDynamic [OF assms(1), of manifest s isPreview isRewrite] assms(2)
    by (simp add: truthy_def pageHtml_def)
next
  assume "nonDynamic (html pgs) P = None \<and> nonDynamic (ssg pgs) P = None \<and>
       nonDynamic (ssr pgs) P = Some p \<and> p \<noteq> []"
  then show "handlePageReq E u manifest rm isPreview isRewrite = RenderRoute False p None"
    using handlePageReq_ssr_nonDynamic [OF assms(1), of manifest isPreview p isRewrite] assms(2)
    by (simp add: truthy_def)
next
  assume "isPreview"
  then show "handlePageReq E u
            (manifest\<lparr>pages := pgs\<lparr>ssg := (ssg pgs)\<lparr>nonDynamic := X\<rparr>\<rparr>\<rparr>) rm isPreview isRewrite
         = handlePageReq E u manifest rm isPreview isRewrite"
    by (intro handlePageReq_preview_ignores_ssg [where X = X])
       (simp_all add: assms(2) handle404_def)
qed

theorem handlePageReq_nonDynamic_first_witness:
  "handlePageReq sampleEnv ''/terms'' (manifestOf blogPages) plainRoutes False False
     = StaticRoute False ''pages/terms.html'' None
   \<and> handlePageReq sampleEnv ''/'' (manifestOf blogPages) plainRoutes False False
     = StaticRoute False ''pages/index.html'' None
   \<and> handlePageReq sampleEnv ''/customers'' (manifestOf blogPages) plainRoutes False False
     = RenderRoute False ''pages/customers.js'' None
   \<and> handlePageReq sampleEnv ''/''
        ((manifestOf blogPages)\<lparr>pages := blogPages\<lparr>ssg := (ssg blogPages)\<lparr>nonDynamic := Map.empty\<rparr>\<rparr>\<rparr>)
        plainRoutes True False
     = handlePageReq sampleEnv ''/'' (manifestOf blogPages) plainRoutes True False"
proof -
  note defs = sampleEnv_def manifestOf_def blogPages_def
  have a: "handlePageReq sampleEnv ''/terms'' (manifestOf blogPages) plainRoutes False False
     = StaticRoute False ''pages/terms.html'' None"
    using handlePageReq_nonDynamic_first [where P = "''/terms''" and E = sampleEnv
        and u = "''/terms''" and rm = plainRoutes and pgs = blogPages
        and manifest = "manifestOf blogPages" and f = "''pages/terms.html''"
        and isPreview = False and isRewrite = False]
    by (simp add: defs)
  have b: "handlePageReq sampleEnv ''/'' (manifestOf blogPages) plainRoutes False False
     = StaticRoute False ''pages/index.html'' None"
    using handlePageReq_nonDynamic_first [where P = "''/''" and E = sampleEnv
        and u = "''/''" and rm = plainRoutes and pgs = blogPages
        and manifest = "manifestOf blogPages"
        and s = "\<lparr>initialRevalidateSeconds = None, srcRoute = None,
                  dataRoute = ''/_next/data/build/index.json''\<rparr>"
        and isPreview = False and isRewrite = False]
    by (simp add: defs)
  have c: "handlePageReq sampleEnv ''/customers'' (manifestOf blogPages) plainRoutes False False
     = RenderRoute False ''pages/customers.js'' None"
    using handlePageReq_nonDynamic_first [where P = "''/customers''" and E = sampleEnv
        and u = "''/customers''" and rm = plainRoutes and pgs = blogPages
        and manifest = "manifestOf blogPages" and p = "''pages/customers.js''"
        and isPreview = False and isRewrite = False]
    by (simp add: defs)
  have d: "handlePageReq sampleEnv ''/''
        ((manifestOf blogPages)\<lparr>pages := blogPages\<lparr>ssg := (ssg blogPages)\<lparr>nonDynamic := Map.empty\<rparr>\<rparr>\<rparr>)
        plainRoutes True False
     = handlePageReq sampleEnv ''/'' (manifestOf blogPages) plainRoutes True False"
    using handlePageReq_nonDynamic_first [where P = "''/''" and E = sampleEnv
        and u = "''/''" and rm = plainRoutes and pgs = blogPages
        and manifest = "manifestOf blogPages" and X = Map.empty
        and isPreview = True and isRewrite = False]
    by (simp add: sampleEnv_def manifestOf_def)
  from a b c d show ?thesis by simp
qed

section \<open>The recursion of handlePageReq\<close>

text \<open>
  The definition of \<^verbatim>\<open>handlePageReq\<close> generates its call relation:
  \<open>handlePageReq_rel callee caller\<close> holds when the invocation with the arguments
  \<open>caller\<close> makes the recursive call with the arguments \<open>callee\<close>, and
  \<open>handlePageReq_dom\<close> is the set of arguments from which every chain of calls is
  finite.
\<close>

lemma handlePageReq_rel_flags:
  "handlePageReq_rel (E', u', manifest', rm', isPreview', isRewrite')
       (E, u, manifest, rm, isPreview, isRewrite) \<Longrightarrow> \<not> isRewrite \<and> isRewrite'"
  by (erule handlePageReq_rel.cases) (auto split: if_splits)

lemma handlePageReq_rel_flag_of:
  "handlePageReq_rel callee caller \<Longrightarrow>
     \<not> snd (snd (snd (snd (snd caller)))) \<and> snd (snd (snd (snd (snd callee))))"
  by (cases callee, cases caller) (auto dest: handlePageReq_rel_flags)

text \<open>Every chain of calls has at most two invocations, so every argument is in the domain.\<close>

lemma handlePageReq_total: "handlePageReq_dom a"
proof (rule accpI)
  fix b assume ba: "handlePageReq_rel b a"
  show "handlePageReq_dom b"
  proof (rule accpI)
    fix c assume "handlePageReq_rel c b"
    then have "\<not> snd (snd (snd (snd (snd b))))"
      by (simp add: handlePageReq_rel_flag_of)
    moreover have "snd (snd (snd (snd (snd b))))"
      using ba by (simp add: handlePageReq_rel_flag_of)
    ultimately show "handlePageReq_dom c" by simp
  qed
qed

text \<open>
  Claim C6. \<^verbatim>\<open>handlePageReq\<close> terminates on every input. A recursive call is made only by
  an invocation whose flag \<^verbatim>\<open>isRewrite\<close> is false, the call has the flag set, and the
  called invocation makes no further call: the recursion has one level. With the flag
  set the result does not depend on the rewrite resolver \<^verbatim>\<open>getRewritePath\<close> at all.
\<close>

theorem handlePageReq_single_rewrite_level:
  "handlePageReq_dom (E, u, manifest, rm, isPreview, isRewrite)
   \<and> (handlePageReq_rel (E', u', manifest', rm', isPreview', isRewrite')
          (E, u, manifest, rm, isPreview, isRewrite)
      \<longrightarrow> \<not> isRewrite \<and> isRewrite'
          \<and> (\<forall>c. \<not> handlePageReq_rel c (E', u', manifest', rm', isPreview', isRewrite')))
   \<and> handlePageReq (E\<lparr>getRewritePath := g\<rparr>) u manifest rm isPreview True
       = handlePageReq (E\<lparr>getRewritePath := g'\<rparr>) u manifest rm isPreview True"
proof (intro conjI impI allI)
  show "handlePageReq_dom (E, u, manifest, rm, isPreview, isRewrite)"
    by (rule handlePageReq_total)
next
  assume r: "handlePageReq_rel (E', u', manifest', rm', isPreview', isRewrite')
          (E, u, manifest, rm, isPreview, isRewrite)"
  then show "\<not> isRewrite" and f': "isRewrite'"
    using handlePageReq_rel_flags by blast+
  fix c
  show "\<not> handlePageReq_rel c (E', u', manifest', rm', isPreview', isRewrite')"
  proof
    assume "handlePageReq_rel c (E', u', manifest', rm', isPreview', isRewrite')"
    then have "\<not> isRewrite'"
      by (cases c) (auto dest: handlePageReq_rel_flags)
    with f' show False by simp
  qed
next
  let ?E1 = "E\<lparr>getRewritePath := g\<rparr>" and ?E2 = "E\<lparr>getRewritePath := g'\<rparr>"
  have n: "normalise ?E1 = normalise ?E2"
    "addDefaultLocaleToPath ?E1 = addDefaultLocaleToPath ?E2"
    by simp_all
  have m: "matchDynamicRoute ?E1 = matchDynamicRoute ?E2"
    by (intro ext) (rule matchDynamicRoute_env, simp)
  show "handlePageReq ?E1 u manifest rm isPreview True
       = handlePageReq ?E2 u manifest rm isPreview True"
    apply (subst handlePageReq.simps)
    apply (subst (2) handlePageReq.simps)
    apply (simp only: n m if_True option.case Let_def)
    done
qed

theorem handlePageReq_single_rewrite_level_witness:
  "handlePageReq_rel (sampleEnv, ''/blog/1'', manifestOf blogPages, plainRoutes, False, True)
       (sampleEnv, ''/old'', manifestOf blogPages, plainRoutes, False, False)
   \<and> (\<forall>c. \<not> handlePageReq_rel c
              (sampleEnv, ''/blog/1'', manifestOf blogPages, plainRoutes, False, True))
   \<and> handlePageReq sampleEnv ''/old'' (manifestOf blogPages) plainRoutes False False
       = RenderRoute False ''pages/blog/[id].js'' (Some ''ref=old'')"
proof -
  have r: "handlePageReq_rel (sampleEnv, ''/blog/1'', manifestOf blogPages, plainRoutes, False, True)
       (sampleEnv, ''/old'', manifestOf blogPages, plainRoutes, False, False)"
    by (simp add: handlePageReq_rel.simps sampleEnv_def manifestOf_def blogPages_def truthy_def)
       blast
  have v: "handlePageReq sampleEnv ''/old'' (manifestOf blogPages) plainRoutes False False
       = RenderRoute False ''pages/blog/[id].js'' (Some ''ref=old'')"
    apply (subst handlePageReq.simps)
    apply (subst handlePageReq.simps)
    apply (simp add: sampleEnv_def manifestOf_def blogPages_def truthy_def handle404_def pageHtml_def)
    done
  have "handlePageReq_rel (sampleEnv, ''/blog/1'', manifestOf blogPages, plainRoutes, False, True)
          (sampleEnv, ''/old'', manifestOf blogPages, plainRoutes, False, False)
      \<longrightarrow> \<not> False \<and> True
          \<and> (\<forall>c. \<not> handlePageReq_rel c
                (sampleEnv, ''/blog/1'', manifestOf blogPages, plainRoutes, False, True))"
    using handlePageReq_single_rewrite_level
      [of sampleEnv "''/old''" "manifestOf blogPages" plainRoutes False False
          sampleEnv "''/blog/1''" "manifestOf blogPages" plainRoutes False True]
    by (rule conjunct1 [OF conjunct2])
  with r v show ?thesis by blast
qed

section \<open>Redirect rules\<close>

lemma getRedirectPath_loop_first:
  assumes "\<forall>r' \<in> set pre. matchPath E p (source r') = Inr None"
    and "matchPath E p (source r) = Inr (Some ps)"
  shows "getRedirectPath_loop E p (pre @ r # post) =
           (case truthy (compileDestination E (destination r) ps) of
              None \<Rightarrow> Inr None
            | Some d \<Rightarrow> Inr (Some \<lparr>path = d, statusCode = RedirectData.statusCode r\<rparr>))"
  using assms by (induction pre) simp_all

text \<open>
  Claim C3. \<^verbatim>\<open>getRedirectPath\<close> scans the rules in the order of their declaration, against
  the path with the default locale added. The first rule whose source matches decides the
  result alone: its compiled destination with its status code (no redirect when the
  destination does not compile, or compiles to the empty string). The rules after it play
  no part, so of two rules that both match the earlier one wins; exchanging them
  exchanges the result.
\<close>

theorem getRedirectPath_first_match:
  assumes "redirects rm = Some (pre @ r # post)"
    and "p = addDefaultLocaleToPath E (uri request) rm"
    and "\<forall>r' \<in> set pre. matchPath E p (source r') = Inr None"
    and "matchPath E p (source r) = Inr (Some ps)"
  shows "getRedirectPath E request rm =
           (case compileDestination E (destination r) ps of
              None \<Rightarrow> Inr None
            | Some d \<Rightarrow>
                if d = [] then Inr None
                else Inr (Some \<lparr>path = d, statusCode = RedirectData.statusCode r\<rparr>))"
  using getRedirectPath_loop_first [OF assms(3,4), of post] assms(1,2)
  by (simp add: getRedirectPath_def truthy_def split: option.splits)

theorem getRedirectPath_first_match_witness:
  "matchPath sampleEnv ''/a'' (source ruleAB) = Inr (Some [])
   \<and> matchPath sampleEnv ''/a'' (source ruleAC) = Inr (Some [])
   \<and> getRedirectPath sampleEnv \<lparr>uri = ''/a''\<rparr>
        (plainRoutes\<lparr>redirects := Some [ruleC, ruleAB, ruleAC]\<rparr>)
       = Inr (Some \<lparr>path = ''/b'', statusCode = 308\<rparr>)
   \<and> getRedirectPath sampleEnv \<lparr>uri = ''/a''\<rparr>
        (plainRoutes\<lparr>redirects := Some [ruleC, ruleAC, ruleAB]\<rparr>)
       = Inr (Some \<lparr>path = ''/c'', statusCode = 302\<rparr>)"
proof -
  note defs = sampleEnv_def plainRoutes_def ruleAB_def ruleAC_def ruleC_def matchPath_def
  have m: "matchPath sampleEnv ''/a'' (source ruleAB) = Inr (Some [])"
    "matchPath sampleEnv ''/a'' (source ruleAC) = Inr (Some [])"
    by (simp_all add: defs)
  have c: "compileDestination sampleEnv ''/b'' [] = Some ''/b''"
    "compileDestination sampleEnv ''/c'' [] = Some ''/c''"
    by (simp_all add: compileDestination_def sampleEnv_def toLowerCase_def escapeQuestionMarks_def)
  have a: "getRedirectPath sampleEnv \<lparr>uri = ''/a''\<rparr>
        (plainRoutes\<lparr>redirects := Some [ruleC, ruleAB, ruleAC]\<rparr>)
       = Inr (Some \<lparr>path = ''/b'', statusCode = 308\<rparr>)"
    using getRedirectPath_first_match [of "plainRoutes\<lparr>redirects := Some [ruleC, ruleAB, ruleAC]\<rparr>"
        "[ruleC]" ruleAB "[ruleAC]" "''/a''" sampleEnv "\<lparr>uri = ''/a''\<rparr>" "[]"] c
    by (simp add: defs)
  have b: "getRedirectPath sampleEnv \<lparr>uri = ''/a''\<rparr>
        (plainRoutes\<lparr>redirects := Some [ruleC, ruleAC, ruleAB]\<rparr>)
       = Inr (Some \<lparr>path = ''/c'', statusCode = 302\<rparr>)"
    using getRedirectPath_first_match [of "plainRoutes\<lparr>redirects := Some [ruleC, ruleAC, ruleAB]\<rparr>"
        "[ruleC]" ruleAC "[ruleAB]" "''/a''" sampleEnv "\<lparr>uri = ''/a''\<rparr>" "[]"] c
    by (simp add: defs)
  from m a b show ?thesis by simp
qed

text \<open>
  Claim C4 says that a rule whose source matches and whose destination does not compile is
  passed over, a later matching rule deciding the result. The source returns \<^verbatim>\<open>null\<close>
  at that rule. Both rules below match \<^verbatim>\<open>/a\<close>; the second alone redirects to \<^verbatim>\<open>/b\<close>,
  and behind the rule that does not compile it is never reached.
\<close>

theorem getRedirectPath_fall_through_counterexample:
  "matchPath sampleEnv ''/a'' (source ruleInvalid) = Inr (Some [])
   \<and> compileDestination sampleEnv (destination ruleInvalid) [] = None
   \<and> matchPath sampleEnv ''/a'' (source ruleAB) = Inr (Some [])
   \<and> compileDestination sampleEnv (destination ruleAB) [] = Some ''/b''
   \<and> getRedirectPath sampleEnv \<lparr>uri = ''/a''\<rparr>
        (plainRoutes\<lparr>redirects := Some [ruleAB]\<rparr>)
       = Inr (Some \<lparr>path = ''/b'', statusCode = 308\<rparr>)
   \<and> getRedirectPath sampleEnv \<lparr>uri = ''/a''\<rparr>
        (plainRoutes\<lparr>redirects := Some [ruleInvalid, ruleAB]\<rparr>)
       = Inr None"
  by (simp add: sampleEnv_def plainRoutes_def ruleAB_def ruleInvalid_def matchPath_def
      getRedirectPath_def compileDestination_def toLowerCase_def escapeQuestionMarks_def
      truthy_def)

text \<open>
  Claim C4, amended. When the first rule whose source matches has a destination that
  does not compile, \<^verbatim>\<open>getRedirectPath\<close> raises no fault and returns no redirect: the scan
  ends at that rule, and the rules after it are not consulted.
\<close>

theorem getRedirectPath_compile_failure:
  assumes "redirects rm = Some (pre @ r # post)"
    and "p = addDefaultLocaleToPath E (uri request) rm"
    and "\<forall>r' \<in> set pre. matchPath E p (source r') = Inr None"
    and "matchPath E p (source r) = Inr (Some ps)"
    and "compileDestination E (destination r) ps = None"
  shows "getRedirectPath E request rm = Inr None"
  using getRedirectPath_loop_first [OF assms(3,4), of post] assms(1,2,5)
  by (simp add: getRedirectPath_def truthy_def)

theorem getRedirectPath_compile_failure_witness:
  "compileDestination sampleEnv (destination ruleInvalid) [] = None
   \<and> getRedirectPath sampleEnv \<lparr>uri = ''/a''\<rparr>
        (plainRoutes\<lparr>redirects := Some [ruleC, ruleInvalid, ruleAB]\<rparr>)
       = Inr None"
proof -
  note defs = sampleEnv_def plainRoutes_def ruleAB_def ruleInvalid_def ruleC_def matchPath_def
  have c: "compileDestination sampleEnv (destination ruleInvalid) [] = None"
    by (simp add: compileDestination_def sampleEnv_def toLowerCase_def escapeQuestionMarks_def
        ruleInvalid_def)
  have "getRedirectPath sampleEnv \<lparr>uri = ''/a''\<rparr>
        (plainRoutes\<lparr>redirects := Some [ruleC, ruleInvalid, ruleAB]\<rparr>) = Inr None"
    using getRedirectPath_compile_failure
      [of "plainRoutes\<lparr>redirects := Some [ruleC, ruleInvalid, ruleAB]\<rparr>"
        "[ruleC]" ruleInvalid "[ruleAB]" "''/a''" sampleEnv "\<lparr>uri = ''/a''\<rparr>" "[]"] c
    by (simp add: defs)
  with c show ?thesis by simp
qed

section \<open>Trailing slashes\<close>

lemma endsWith_append_slash [simp]: "endsWith (t @ ''/'') ''/''"
  by (simp add: endsWith_def)

lemma slice_append_slash [simp]: "slice_0_minus1 (t @ ''/'') = t"
  by (simp add: slice_0_minus1_def)

text \<open>
  Claim C8 says that for a page request, when the policy is false and the URI ends in a
  slash, the URI without that slash is returned, the bare root and the empty URI being
  the only exceptions. The source normalizes a page request only when its URI is a slash
  followed by a character that is not a slash: \<^verbatim>\<open>//terms/\<close> ends in a slash, is neither
  the root nor empty, and is left alone.
\<close>

theorem getTrailingSlashPath_guard_counterexample:
  "endsWith ''//terms/'' ''/''
   \<and> ''//terms/'' \<noteq> ''/'' \<and> ''//terms/'' \<noteq> []
   \<and> getTrailingSlashPath \<lparr>uri = ''//terms/''\<rparr>
        \<lparr>trailingSlash = False, domainRedirects = Map.empty\<rparr> False = None"
  by (simp add: getTrailingSlashPath_def endsWith_def)

text \<open>
  Claim C8, amended. For a file-like request a trailing slash is removed whatever the
  policy is (and nothing is returned without one). For a page request whose URI is a
  slash followed by a character other than a slash: with the policy false and a trailing
  slash the URI without it is returned, with the policy true and no trailing slash the
  URI plus a slash. For every other page URI (the empty one, the bare root, one that
  begins with two slashes or does not begin with a slash) nothing is returned.
\<close>

theorem getTrailingSlashPath_policy:
  "(isFile \<and> uri request = t @ ''/''
      \<longrightarrow> getTrailingSlashPath request manifest isFile = Some t)
 \<and> (isFile \<and> \<not> endsWith (uri request) ''/''
      \<longrightarrow> getTrailingSlashPath request manifest isFile = None)
 \<and> (\<not> isFile \<and> \<not> trailingSlash manifest \<and> c \<noteq> CHR ''/''
      \<and> uri request = CHR ''/'' # c # cs @ ''/''
      \<longrightarrow> getTrailingSlashPath request manifest isFile = Some (CHR ''/'' # c # cs))
 \<and> (\<not> isFile \<and> trailingSlash manifest \<and> c \<noteq> CHR ''/''
      \<and> uri request = CHR ''/'' # c # cs \<and> \<not> endsWith (uri request) ''/''
      \<longrightarrow> getTrailingSlashPath request manifest isFile = Some (uri request @ ''/''))
 \<and> (\<not> isFile \<and> (uri request = [] \<or> uri request = ''/'' \<or> startsWith (uri request) ''//''
                  \<or> \<not> startsWith (uri request) ''/'')
      \<longrightarrow> getTrailingSlashPath request manifest isFile = None)"
proof (intro conjI impI)
  assume "isFile \<and> uri request = t @ ''/''"
  then show "getTrailingSlashPath request manifest isFile = Some t"
    by (simp add: getTrailingSlashPath_def)
next
  assume "isFile \<and> \<not> endsWith (uri request) ''/''"
  then show "getTrailingSlashPath request manifest isFile = None"
    by (simp add: getTrailingSlashPath_def)
next
  assume a: "\<not> isFile \<and> \<not> trailingSlash manifest \<and> c \<noteq> CHR ''/''
      \<and> uri request = CHR ''/'' # c # cs @ ''/''"
  then have "uri request = (CHR ''/'' # c # cs) @ ''/''" by simp
  then have "endsWith (uri request) ''/''" "slice_0_minus1 (uri request) = CHR ''/'' # c # cs"
    by (simp_all only: endsWith_append_slash slice_append_slash)
  with a show "getTrailingSlashPath request manifest isFile = Some (CHR ''/'' # c # cs)"
    by (simp add: getTrailingSlashPath_def)
next
  assume "\<not> isFile \<and> trailingSlash manifest \<and> c \<noteq> CHR ''/''
      \<and> uri request = CHR ''/'' # c # cs \<and> \<not> endsWith (uri request) ''/''"
  then show "getTrailingSlashPath request manifest isFile = Some (uri request @ ''/'')"
    by (auto simp: getTrailingSlashPath_def Let_def)
next
  assume a: "\<not> isFile \<and> (uri request = [] \<or> uri request = ''/'' \<or> startsWith (uri request) ''//''
                  \<or> \<not> startsWith (uri request) ''/'')"
  then have "\<not> slashThenOther (uri request)"
    by (cases "uri request" rule: slashThenOther.cases) auto
  with a show "getTrailingSlashPath request manifest isFile = None"
    by (simp add: getTrailingSlashPath_def)
qed

theorem getTrailingSlashPath_policy_witness:
  "getTrailingSlashPath \<lparr>uri = ''/data.json/''\<rparr>
      \<lparr>trailingSlash = True, domainRedirects = Map.empty\<rparr> True = Some ''/data.json''
   \<and> getTrailingSlashPath \<lparr>uri = ''/data.json''\<rparr>
      \<lparr>trailingSlash = True, domainRedirects = Map.empty\<rparr> True = None
   \<and> getTrailingSlashPath \<lparr>uri = ''/terms/''\<rparr>
      \<lparr>trailingSlash = False, domainRedirects = Map.empty\<rparr> False = Some ''/terms''
   \<and> getTrailingSlashPath \<lparr>uri = ''/terms''\<rparr>
      \<lparr>trailingSlash = True, domainRedirects = Map.empty\<rparr> False = Some ''/terms/''
   \<and> getTrailingSlashPath \<lparr>uri = ''/''\<rparr>
      \<lparr>trailingSlash = False, domainRedirects = Map.empty\<rparr> False = None"
proof -
  have a: "getTrailingSlashPath \<lparr>uri = ''/data.json/''\<rparr>
      \<lparr>trailingSlash = True, domainRedirects = Map.empty\<rparr> True = Some ''/data.json''"
    using getTrailingSlashPath_policy [where isFile = True and request = "\<lparr>uri = ''/data.json/''\<rparr>"
        and t = "''/data.json''"
        and manifest = "\<lparr>trailingSlash = True, domainRedirects = Map.empty\<rparr>"]
    by simp
  have b: "getTrailingSlashPath \<lparr>uri = ''/data.json''\<rparr>
      \<lparr>trailingSlash = True, domainRedirects = Map.empty\<rparr> True = None"
    using getTrailingSlashPath_policy [where isFile = True and request = "\<lparr>uri = ''/data.json''\<rparr>"
        and manifest = "\<lparr>trailingSlash = True, domainRedirects = Map.empty\<rparr>"]
    by (simp add: endsWith_def)
  have c: "getTrailingSlashPath \<lparr>uri = ''/terms/''\<rparr>
      \<lparr>trailingSlash = False, domainRedirects = Map.empty\<rparr> False = Some ''/terms''"
    using getTrailingSlashPath_policy [where isFile = False and request = "\<lparr>uri = ''/terms/''\<rparr>"
        and c = "CHR ''t''" and cs = "''erms''"
        and manifest = "\<lparr>trailingSlash = False, domainRedirects = Map.empty\<rparr>"]
    by simp
  have d: "getTrailingSlashPath \<lparr>uri = ''/terms''\<rparr>
      \<lparr>trailingSlash = True, domainRedirects = Map.empty\<rparr> False = Some ''/terms/''"
    using getTrailingSlashPath_policy [where isFile = False and request = "\<lparr>uri = ''/terms''\<rparr>"
        and c = "CHR ''t''" and cs = "''erms''"
        and manifest = "\<lparr>trailingSlash = True, domainRedirects = Map.empty\<rparr>"]
    by (simp add: endsWith_def)
  have e: "getTrailingSlashPath \<lparr>uri = ''/''\<rparr>
      \<lparr>trailingSlash = False, domainRedirects = Map.empty\<rparr> False = None"
    using getTrailingSlashPath_policy [where isFile = False and request = "\<lparr>uri = ''/''\<rparr>"
        and manifest = "\<lparr>trailingSlash = False, domainRedirects = Map.empty\<rparr>"]
    by simp
  from a b c d e show ?thesis by simp
qed

text \<open>
  Claim C9 says that for every destination template that compiles, a trailing slash
  that the substitution introduces is removed. The source removes it only on the branch
  of the absolute URLs. The template \<^verbatim>\<open>/a/:b(.*)\<close> does not end in a slash; with the
  empty string captured for \<^verbatim>\<open>b\<close> path-to-regexp compiles it to \<^verbatim>\<open>/a/\<close>, and that is
  what \<^verbatim>\<open>compileDestination\<close> returns.
\<close>

theorem compileDestination_internal_slash_counterexample:
  "\<not> endsWith ''/a/:b(.*)'' ''/''
   \<and> compileDestination sampleEnv ''/a/:b(.*)'' [(''b'', [])] = Some ''/a/''
   \<and> endsWith ''/a/'' ''/''"
  by (simp add: compileDestination_def sampleEnv_def toLowerCase_def escapeQuestionMarks_def
      endsWith_def)

text \<open>
  Claim C9, amended. For a destination that begins with \<^verbatim>\<open>http://\<close> or \<^verbatim>\<open>https://\<close>
  (in any case of the letters) and compiles: when the template does not end in a slash and
  the origin followed by the compiled path does, that one slash is removed; otherwise the
  origin followed by the compiled path is returned as it is. For every other destination
  the result is what path-to-regexp compiles from the template with its question marks
  escaped, a trailing slash included.
\<close>

theorem compileDestination_trailing_slash:
  assumes "absolute = (startsWith (toLowerCase dest) ''https://'' \<or>
                       startsWith (toLowerCase dest) ''http://'')"
  shows
   "(absolute \<and> url_parse E dest = Some (origin, pathname)
       \<and> ptr_compile E pathname ps = Some compiledPath
       \<and> \<not> endsWith dest ''/'' \<and> origin @ compiledPath = t @ ''/''
     \<longrightarrow> compileDestination E dest ps = Some t)
  \<and> (absolute \<and> url_parse E dest = Some (origin, pathname)
       \<and> ptr_compile E pathname ps = Some compiledPath
       \<and> (endsWith dest ''/'' \<or> \<not> endsWith (origin @ compiledPath) ''/'')
     \<longrightarrow> compileDestination E dest ps = Some (origin @ compiledPath))
  \<and> (\<not> absolute
     \<longrightarrow> compileDestination E dest ps = ptr_compile E (escapeQuestionMarks dest) ps)"
proof (intro conjI impI)
  assume a: "absolute \<and> url_parse E dest = Some (origin, pathname)
       \<and> ptr_compile E pathname ps = Some compiledPath
       \<and> \<not> endsWith dest ''/'' \<and> origin @ compiledPath = t @ ''/''"
  then have "endsWith (origin @ compiledPath) ''/''"
    "slice_0_minus1 (origin @ compiledPath) = t"
    by (simp_all only: endsWith_append_slash slice_append_slash)
  with a show "compileDestination E dest ps = Some t"
    using assms by (simp add: compileDestination_def)
next
  assume "absolute \<and> url_parse E dest = Some (origin, pathname)
       \<and> ptr_compile E pathname ps = Some compiledPath
       \<and> (endsWith dest ''/'' \<or> \<not> endsWith (origin @ compiledPath) ''/'')"
  then show "compileDestination E dest ps = Some (origin @ compiledPath)"
    using assms by (auto simp: compileDestination_def)
next
  assume "\<not> absolute"
  then show "compileDestination E dest ps = ptr_compile E (escapeQuestionMarks dest) ps"
    using assms by (simp add: compileDestination_def)
qed

theorem compileDestination_trailing_slash_witness:
  "compileDestination sampleEnv ''https://example.com'' [] = Some ''https://example.com''
   \<and> compileDestination sampleEnv ''https://example.com/docs/'' []
       = Some ''https://example.com/docs/''
   \<and> compileDestination sampleEnv ''/news/:slug'' [(''slug'', ''abc'')] = Some ''/news/abc''"
proof -
  have a: "compileDestination sampleEnv ''https://example.com'' [] = Some ''https://example.com''"
    using compileDestination_trailing_slash [where absolute = True
        and dest = "''https://example.com''" and E = sampleEnv
        and origin = "''https://example.com''" and pathname = "''/''" and ps = "[]"
        and compiledPath = "''/''" and t = "''https://example.com''"]
    by (simp add: sampleEnv_def toLowerCase_def endsWith_def)
  have b: "compileDestination sampleEnv ''https://example.com/docs/'' []
       = Some ''https://example.com/docs/''"
    using compileDestination_trailing_slash [where absolute = True
        and dest = "''https://example.com/docs/''" and E = sampleEnv
        and origin = "''https://example.com''" and pathname = "''/docs/''" and ps = "[]"
        and compiledPath = "''/docs/''"]
    by (simp add: sampleEnv_def toLowerCase_def endsWith_def)
  have c: "compileDestination sampleEnv ''/news/:slug'' [(''slug'', ''abc'')] = Some ''/news/abc''"
    using compileDestination_trailing_slash [where absolute = False
        and dest = "''/news/:slug''" and E = sampleEnv and ps = "[(''slug'', ''abc'')]"]
    by (simp add: sampleEnv_def toLowerCase_def escapeQuestionMarks_def)
  from a b c show ?thesis by simp
qed

section \<open>Locale duplicates\<close>

text \<open>
  Claim C5 says that every static HTML entry whose key no locale prefixes gets a
  duplicate for every locale, that only entries with a prefixed key are skipped, and that
  one prefixed entry does not keep the others from being duplicated. The comment above
  the test of line 189 reads \<^verbatim>\<open>Locale-prefixed pages don't need to be duplicated\<close>, but on
  a prefixed key the source executes \<^verbatim>\<open>break htmlPagesNonDynamicLoop\<close>, which ends the loop
  over the keys. Here are two manifests with the locales \<^verbatim>\<open>en\<close> and \<^verbatim>\<open>fr\<close> and the same
  two pages; the key \<^verbatim>\<open>/about\<close> has no locale prefix. When the prefixed key \<^verbatim>\<open>/en/404\<close>
  comes first, the loop ends there for each locale: the final \<^verbatim>\<open>pages.html.nonDynamic\<close>
  is the object it started from, without \<^verbatim>\<open>/en/about\<close> and \<^verbatim>\<open>/fr/about\<close>. When \<^verbatim>\<open>/about\<close>
  comes first, both duplicates are made.
\<close>

theorem html_nonDynamic_i18n_break:
  "\<not> localePrefixed [''en'', ''fr''] ''/about''
   \<and> html_nonDynamic_i18n i18nRoutes
        [(''/en/404'', ''pages/en/404.html''), (''/about'', ''pages/about.html'')]
       = [(''/en/404'', ''pages/en/404.html''), (''/about'', ''pages/about.html'')]
   \<and> map_of (html_nonDynamic_i18n i18nRoutes
        [(''/en/404'', ''pages/en/404.html''), (''/about'', ''pages/about.html'')])
        ''/en/about'' = None
   \<and> map_of (html_nonDynamic_i18n i18nRoutes
        [(''/en/404'', ''pages/en/404.html''), (''/about'', ''pages/about.html'')])
        ''/fr/about'' = None
   \<and> html_nonDynamic_i18n i18nRoutes
        [(''/about'', ''pages/about.html''), (''/en/404'', ''pages/en/404.html'')]
       = [(''/about'', ''pages/about.html''), (''/en/404'', ''pages/en/404.html''),
          (''/en/about'', ''pages/en/about.html''), (''/fr/about'', ''pages/fr/about.html'')]"
  by (simp add: html_nonDynamic_i18n_def i18nRoutes_def localeHtmlPages_nonDynamic_def
      localePrefixed_def spread_def newKey_def replace_def)

end
